theory Spec2Isabelle
  imports Main "HOL-Library.Word"
begin

section \<open>Data model of device.go\<close>

text \<open>
  A C or Go pointer is an optional address: \<open>None\<close> is \<open>nil\<close>.
\<close>

type_synonym ptr = "nat option"

text \<open>
  The two guard errors of device.go, and the errors \<open>newError\<close> builds from a native
  status (\<open>newError\<close> and \<open>ErrorType\<close> are declared outside device.go; the payload
  only identifies the value).
\<close>

datatype error = ErrDeviceClosed | ErrDeviceNotFound | Translated nat

text \<open>
  \<open>uvc_stream_ctrl_t\<close> is an opaque C struct that device.go only passes on: its bytes.
  \<open>FrameFormat\<close> is declared outside device.go and converted to a C enum.
\<close>

type_synonym uvc_stream_ctrl_t = "8 word list"
type_synonym FrameFormat = "32 word"

subsection \<open>Native structures read through cgo\<close>

text \<open>
  Only the fields device.go reads are listed, at the widths of the Go conversions
  applied to them. A field name shared by two structs carries the struct as a suffix
  (\<open>_ci\<close>, \<open>_si\<close>, \<open>_fmt\<close>, \<open>_frm\<close>). \<open>intervals\<close> is the native frame descriptor's
  zero-terminated array of discrete frame intervals (its contents before the
  terminator); device.go never reads it.
\<close>

record uvc_control_interface_t =
  bcdUVC :: "16 word"
  bInterfaceNumber_ci :: "8 word"
  bEndpointAddress_ci :: "8 word"
  dwClockFrequency :: "32 word"

record uvc_device_handle_t =
  info_ctrl_if :: uvc_control_interface_t
  info_stream_ifs :: ptr
  streams :: ptr

record uvc_streaming_interface_t =
  next_si :: ptr
  bInterfaceNumber_si :: "8 word"
  bEndpointAddress_si :: "8 word"
  bTerminalLink :: "8 word"
  format_descs :: ptr

record uvc_format_desc_t =
  next_fmt :: ptr
  bDescriptorSubtype_fmt :: "32 word"
  bFormatIndex :: "8 word"
  bNumFrameDescriptors :: "8 word"
  anon1 :: "8 word"
  bDefaultFrameIndex :: "8 word"
  bAspectRatioX :: "8 word"
  bAspectRatioY :: "8 word"
  bmInterlaceFlags :: "8 word"
  bCopyProtect :: "8 word"
  bVariableSize :: "8 word"
  frame_descs :: ptr

record uvc_frame_desc_t =
  next_frm :: ptr
  bDescriptorSubtype_frm :: "32 word"
  bFrameIndex :: "8 word"
  bmCapabilities :: "8 word"
  wWidth :: "16 word"
  wHeight :: "16 word"
  dwMinBitRate :: "32 word"
  dwMaxBitRate :: "32 word"
  dwMaxVideoFrameBufferSize :: "32 word"
  dwDefaultFrameInterval :: "32 word"
  dwMinFrameInterval :: "32 word"
  dwMaxFrameInterval :: "32 word"
  dwFrameIntervalStep :: "32 word"
  bFrameIntervalType :: "8 word"
  dwBytesPerLine :: "32 word"
  intervals :: "32 word list"

text \<open>
  Native memory: one store per struct type, from addresses to the struct allocated
  there. An address outside the store's domain is not allocated.
\<close>

record memory =
  mem_devh :: "nat \<rightharpoonup> uvc_device_handle_t"
  mem_stream_if :: "nat \<rightharpoonup> uvc_streaming_interface_t"
  mem_format_desc :: "nat \<rightharpoonup> uvc_format_desc_t"
  mem_frame_desc :: "nat \<rightharpoonup> uvc_frame_desc_t"

subsection \<open>Go structures\<close>

text \<open>
  \<open>Device\<close>: the native device reference and the optional open handle. The field
  \<open>mu\<close> (a \<open>sync.RWMutex\<close>) is not a field of the record: its operations are
  events of the trace every method returns.
\<close>

record Device =
  dev :: ptr
  handle :: ptr

record ControlInterface =
  itf_ci :: uvc_control_interface_t
  BcdUVC :: "16 word"
  Number_ci :: "8 word"
  EndpointAddress_ci :: "8 word"
  ClockFrequency :: "32 word"

record StreamInterface =
  itf_si :: ptr
  Number_si :: "8 word"
  EndpointAddress_si :: "8 word"
  TerminalLink :: "8 word"

record FormatDescriptor =
  desc_fmt :: ptr
  Subtype_fmt :: "32 word"
  FormatIndex :: "8 word"
  NumFrameDescriptors :: "8 word"
  BitsPerPixel :: "8 word"
  Flags :: "8 word"
  DefaultFrameIndex :: "8 word"
  AspectRatioX :: "8 word"
  AspectRatioY :: "8 word"
  InterlaceFlags :: "8 word"
  CopyProtect :: "8 word"
  VariableSize :: "8 word"

record FrameDescriptor =
  desc_frm :: ptr
  Subtype_frm :: "32 word"
  FrameIndex :: "8 word"
  Capabilities :: "8 word"
  Width :: "16 word"
  Height :: "16 word"
  MinBitRate :: "32 word"
  MaxBitRate :: "32 word"
  MaxVideoFrameBufferSize :: "32 word"
  DefaultFrameInterval :: "32 word"
  MinFrameInterval :: "32 word"
  MaxFrameInterval :: "32 word"
  FrameIntervalStep :: "32 word"
  FrameIntervalType :: "8 word"
  BytesPerLine :: "32 word"
  Intervals :: "32 word list"

text \<open>
  \<open>Stream\<close> is declared outside device.go; \<open>GetStream\<close> sets these two fields.
\<close>

record Stream =
  devh :: ptr
  ctrl :: uvc_stream_ctrl_t

subsection \<open>Effects\<close>

text \<open>
  Every method returns the trace of what it did besides computing a value: the
  operations on \<open>mu\<close>, the calls into libuvc with their arguments, and the reads of
  native memory (one per struct dereferenced).
\<close>

datatype native_call =
    Uvc_open ptr
  | Uvc_close ptr
  | Uvc_set_ae_mode ptr "8 word"
  | Uvc_set_ae_priority ptr "8 word"
  | Uvc_set_exposure_rel ptr "8 word"
  | Uvc_set_brightness ptr "16 word"
  | Uvc_get_stream_ctrl_format_size ptr "32 word" "32 word" "32 word" "32 word"
  | Uvc_ref_device ptr
  | Uvc_unref_device ptr

datatype mem_ref = DevH nat | StreamIf nat | FormatDesc nat | FrameDesc nat

datatype event = Lock | Unlock | RLock | RUnlock | Call native_call | Read mem_ref

text \<open>
  What the code obtains from outside device.go: the status each libuvc call returns
  (with what it leaves in its out-parameter), and \<open>newError\<close> applied to
  \<open>ErrorType(r)\<close>. \<open>uvc_open\<close> takes the device and the current contents of
  \<open>dev.handle\<close> (passed by address) and gives the status and the contents afterwards.
\<close>

record env =
  newError :: "32 word \<Rightarrow> error option"
  uvc_open :: "ptr \<Rightarrow> ptr \<Rightarrow> 32 word \<times> ptr"
  uvc_set_ae_mode :: "ptr \<Rightarrow> 8 word \<Rightarrow> 32 word"
  uvc_set_ae_priority :: "ptr \<Rightarrow> 8 word \<Rightarrow> 32 word"
  uvc_set_exposure_rel :: "ptr \<Rightarrow> 8 word \<Rightarrow> 32 word"
  uvc_set_brightness :: "ptr \<Rightarrow> 16 word \<Rightarrow> 32 word"
  uvc_get_stream_ctrl_format_size ::
    "ptr \<Rightarrow> 32 word \<Rightarrow> 32 word \<Rightarrow> 32 word \<Rightarrow> 32 word \<Rightarrow> 32 word \<times> uvc_stream_ctrl_t"

fun native_calls :: "event list \<Rightarrow> native_call list" where
  "native_calls [] = []"
| "native_calls (Call c # es) = c # native_calls es"
| "native_calls (e # es) = native_calls es"

section \<open>The device handle\<close>

text \<open>
  A method with receiver \<open>*Device\<close> returns its Go result, the device after the
  call, and its trace. The deferred unlock is the last event.
\<close>

definition Open :: "env \<Rightarrow> Device \<Rightarrow> error option \<times> Device \<times> event list" where
  "Open E d =
     (if handle d \<noteq> None then (None, d, [Lock, Unlock])
      else (case uvc_open E (dev d) (handle d) of
              (r, h) \<Rightarrow>
                (newError E r, d\<lparr>handle := h\<rparr>, [Lock, Call (Uvc_open (dev d)), Unlock])))"

definition SetAEMode :: "env \<Rightarrow> Device \<Rightarrow> 8 word \<Rightarrow> error option \<times> Device \<times> event list" where
  "SetAEMode E d mode =
     (if handle d = None then (Some ErrDeviceClosed, d, [RLock, RUnlock])
      else (newError E (uvc_set_ae_mode E (handle d) mode), d,
            [RLock, Call (Uvc_set_ae_mode (handle d) mode), RUnlock]))"

definition SetAEPriority :: "env \<Rightarrow> Device \<Rightarrow> 8 word \<Rightarrow> error option \<times> Device \<times> event list" where
  "SetAEPriority E d priority =
     (if handle d = None then (Some ErrDeviceClosed, d, [RLock, RUnlock])
      else (newError E (uvc_set_ae_priority E (handle d) priority), d,
            [RLock, Call (Uvc_set_ae_priority (handle d) priority), RUnlock]))"

definition SetExposureRelative ::
  "env \<Rightarrow> Device \<Rightarrow> 8 word \<Rightarrow> error option \<times> Device \<times> event list" where
  "SetExposureRelative E d exposure =
     (if handle d = None then (Some ErrDeviceClosed, d, [RLock, RUnlock])
      else (newError E (uvc_set_exposure_rel E (handle d) exposure), d,
            [RLock, Call (Uvc_set_exposure_rel (handle d) exposure), RUnlock]))"

definition SetBrightness :: "env \<Rightarrow> Device \<Rightarrow> 16 word \<Rightarrow> error option \<times> Device \<times> event list" where
  "SetBrightness E d brightness =
     (if handle d = None then (Some ErrDeviceClosed, d, [RLock, RUnlock])
      else (newError E (uvc_set_brightness E (handle d) brightness), d,
            [RLock, Call (Uvc_set_brightness (handle d) brightness), RUnlock]))"

text \<open>
  \<open>GetStream\<close>: Go's \<open>int\<close> is taken at 64 bits; \<open>C.int\<close> keeps the low 32. The
  result is the Go pair (stream, error).
\<close>

definition GetStream ::
  "env \<Rightarrow> Device \<Rightarrow> FrameFormat \<Rightarrow> 64 word \<Rightarrow> 64 word \<Rightarrow> 64 word
     \<Rightarrow> (Stream option \<times> error option) \<times> Device \<times> event list" where
  "GetStream E d format width height fps =
     (if handle d = None then ((None, Some ErrDeviceClosed), d, [RLock, RUnlock])
      else (case uvc_get_stream_ctrl_format_size E (handle d) format
                   (ucast width) (ucast height) (ucast fps) of
              (r, c) \<Rightarrow>
                ((case newError E r of
                    Some err \<Rightarrow> (None, Some err)
                  | None \<Rightarrow> (Some \<lparr>devh = handle d, ctrl = c\<rparr>, None)),
                 d,
                 [RLock,
                  Call (Uvc_get_stream_ctrl_format_size (handle d) format
                          (ucast width) (ucast height) (ucast fps)),
                  RUnlock])))"

definition Ref :: "Device \<Rightarrow> Device \<times> event list" where
  "Ref d =
     (if handle d = None then (d, [RLock, RUnlock])
      else (d, [RLock, Call (Uvc_ref_device (dev d)), RUnlock]))"

definition Unref :: "Device \<Rightarrow> Device \<times> event list" where
  "Unref d =
     (if handle d = None then (d, [RLock, RUnlock])
      else (d, [RLock, Call (Uvc_unref_device (dev d)), RUnlock]))"

text \<open>
  \<open>Close\<close> binds nothing the native call gives back, so it takes no \<open>env\<close>.
\<close>

definition Close :: "Device \<Rightarrow> error option \<times> Device \<times> event list" where
  "Close d = (None, d\<lparr>handle := None\<rparr>, [Lock, Call (Uvc_close (handle d)), Unlock])"

definition IsClosed :: "Device \<Rightarrow> bool \<times> Device \<times> event list" where
  "IsClosed d = (handle d = None, d, [RLock, RUnlock])"

section \<open>The descriptor catalog\<close>

text \<open>
  The three catalog loops have one shape:
  \<^verbatim>\<open>for x := head; x != nil; x = x.next { out = append(out, &T{...}) }\<close>.
  \<open>for_each_node H nxt mk rd p out evs\<close> is that loop at pointer \<open>p\<close> over the store
  \<open>H\<close>, with \<open>nxt\<close> the \<open>next\<close> field, \<open>mk a n\<close> the composite literal built from the
  node \<open>n\<close> at address \<open>a\<close>, and \<open>Read (rd a)\<close> the event of reading that node. The
  value \<open>None\<close> is a call that does not return: the list is cyclic, or a pointer
  leads outside allocated memory.
\<close>

partial_function (option) for_each_node ::
  "(nat \<rightharpoonup> 'n) \<Rightarrow> ('n \<Rightarrow> ptr) \<Rightarrow> (nat \<Rightarrow> 'n \<Rightarrow> 'v) \<Rightarrow> (nat \<Rightarrow> mem_ref)
     \<Rightarrow> ptr \<Rightarrow> 'v list \<Rightarrow> event list \<Rightarrow> ('v list \<times> event list) option" where
  "for_each_node H nxt mk rd p out evs =
     (case p of
        None \<Rightarrow> Some (out, evs)
      | Some a \<Rightarrow>
          (case H a of
             None \<Rightarrow> None
           | Some n \<Rightarrow> for_each_node H nxt mk rd (nxt n) (out @ [mk a n]) (evs @ [Read (rd a)])))"

definition ControlInterface ::
  "memory \<Rightarrow> Device \<Rightarrow> (ControlInterface option \<times> Device \<times> event list) option" where
  "ControlInterface M d =
     (case handle d of
        None \<Rightarrow> Some (None, d, [RLock, RUnlock])
      | Some h \<Rightarrow>
          (case mem_devh M h of
             None \<Rightarrow> None
           | Some hs \<Rightarrow>
               Some (Some \<lparr>itf_ci = info_ctrl_if hs,
                            BcdUVC = bcdUVC (info_ctrl_if hs),
                            Number_ci = bInterfaceNumber_ci (info_ctrl_if hs),
                            EndpointAddress_ci = bEndpointAddress_ci (info_ctrl_if hs),
                            ClockFrequency = dwClockFrequency (info_ctrl_if hs)\<rparr>,
                     d, [RLock, Read (DevH h), RUnlock])))"

definition new_StreamInterface :: "nat \<Rightarrow> uvc_streaming_interface_t \<Rightarrow> StreamInterface" where
  "new_StreamInterface a itf =
     \<lparr>itf_si = Some a,
      Number_si = bInterfaceNumber_si itf,
      EndpointAddress_si = bEndpointAddress_si itf,
      TerminalLink = bTerminalLink itf\<rparr>"

definition StreamInterfaces ::
  "memory \<Rightarrow> Device \<Rightarrow> (StreamInterface list \<times> Device \<times> event list) option" where
  "StreamInterfaces M d =
     (case handle d of
        None \<Rightarrow> Some ([], d, [RLock, RUnlock])
      | Some h \<Rightarrow>
          (case mem_devh M h of
             None \<Rightarrow> None
           | Some hs \<Rightarrow>
               (case for_each_node (mem_stream_if M) next_si new_StreamInterface StreamIf
                       (info_stream_ifs hs) [] [RLock, Read (DevH h)] of
                  None \<Rightarrow> None
                | Some (ifs, evs) \<Rightarrow> Some (ifs, d, evs @ [RUnlock]))))"

text \<open>
  \<open>BitsPerPixel\<close> and \<open>Flags\<close> both read byte 0 of the one-byte union \<open>anon1\<close>.
\<close>

definition new_FormatDescriptor :: "nat \<Rightarrow> uvc_format_desc_t \<Rightarrow> FormatDescriptor" where
  "new_FormatDescriptor a desc =
     \<lparr>desc_fmt = Some a,
      Subtype_fmt = bDescriptorSubtype_fmt desc,
      FormatIndex = bFormatIndex desc,
      NumFrameDescriptors = bNumFrameDescriptors desc,
      BitsPerPixel = anon1 desc,
      Flags = anon1 desc,
      DefaultFrameIndex = bDefaultFrameIndex desc,
      AspectRatioX = bAspectRatioX desc,
      AspectRatioY = bAspectRatioY desc,
      InterlaceFlags = bmInterlaceFlags desc,
      CopyProtect = bCopyProtect desc,
      VariableSize = bVariableSize desc\<rparr>"

text \<open>
  \<open>FormatDescriptors\<close> and \<open>FrameDescriptors\<close> have no \<open>Device\<close> at hand: their
  receivers are the values returned earlier, and they start from the native
  pointer those values hold.
\<close>

definition FormatDescriptors ::
  "memory \<Rightarrow> StreamInterface \<Rightarrow> (FormatDescriptor list \<times> event list) option" where
  "FormatDescriptors M i =
     (case itf_si i of
        None \<Rightarrow> Some ([], [])
      | Some a \<Rightarrow>
          (case mem_stream_if M a of
             None \<Rightarrow> None
           | Some s \<Rightarrow>
               for_each_node (mem_format_desc M) next_fmt new_FormatDescriptor FormatDesc
                 (format_descs s) [] [Read (StreamIf a)]))"

text \<open>
  The composite literal of \<open>FrameDescriptors\<close> leaves \<open>Intervals\<close> out (the line is
  commented out in the source), so the field has Go's zero value, the nil slice.
\<close>

definition new_FrameDescriptor :: "nat \<Rightarrow> uvc_frame_desc_t \<Rightarrow> FrameDescriptor" where
  "new_FrameDescriptor a desc =
     \<lparr>desc_frm = Some a,
      Subtype_frm = bDescriptorSubtype_frm desc,
      FrameIndex = bFrameIndex desc,
      Capabilities = bmCapabilities desc,
      Width = wWidth desc,
      Height = wHeight desc,
      MinBitRate = dwMinBitRate desc,
      MaxBitRate = dwMaxBitRate desc,
      MaxVideoFrameBufferSize = dwMaxVideoFrameBufferSize desc,
      DefaultFrameInterval = dwDefaultFrameInterval desc,
      MinFrameInterval = dwMinFrameInterval desc,
      MaxFrameInterval = dwMaxFrameInterval desc,
      FrameIntervalStep = dwFrameIntervalStep desc,
      FrameIntervalType = bFrameIntervalType desc,
      BytesPerLine = dwBytesPerLine desc,
      Intervals = []\<rparr>"

definition FrameDescriptors ::
  "memory \<Rightarrow> FormatDescriptor \<Rightarrow> (FrameDescriptor list \<times> event list) option" where
  "FrameDescriptors M d =
     (case desc_fmt d of
        None \<Rightarrow> Some ([], [])
      | Some a \<Rightarrow>
          (case mem_format_desc M a of
             None \<Rightarrow> None
           | Some f \<Rightarrow>
               for_each_node (mem_frame_desc M) next_frm new_FrameDescriptor FrameDesc
                 (frame_descs f) [] [Read (FormatDesc a)]))"

subsection \<open>Well-formed native lists and lock scope\<close>

text \<open>
  \<open>chain H nxt p as\<close>: starting at \<open>p\<close> and following \<open>nxt\<close>, the allocated nodes at
  the addresses \<open>as\<close> are met in this order, and the last one's \<open>next\<close> is nil.
\<close>

fun chain :: "(nat \<rightharpoonup> 'n) \<Rightarrow> ('n \<Rightarrow> ptr) \<Rightarrow> ptr \<Rightarrow> nat list \<Rightarrow> bool" where
  "chain H nxt p [] = (p = None)"
| "chain H nxt p (a # as) =
     (p = Some a \<and> (case H a of None \<Rightarrow> False | Some n \<Rightarrow> chain H nxt (nxt n) as))"

text \<open>
  \<open>reads_under_rlock n evs\<close>: with \<open>n\<close> read locks held at the start, every read of
  native memory in \<open>evs\<close> happens while a read lock is held.
\<close>

fun reads_under_rlock :: "nat \<Rightarrow> event list \<Rightarrow> bool" where
  "reads_under_rlock n [] = True"
| "reads_under_rlock n (RLock # es) = reads_under_rlock (Suc n) es"
| "reads_under_rlock n (RUnlock # es) = reads_under_rlock (n - 1) es"
| "reads_under_rlock n (Read r # es) = (0 < n \<and> reads_under_rlock n es)"
| "reads_under_rlock n (e # es) = reads_under_rlock n es"

fun is_read :: "event \<Rightarrow> bool" where
  "is_read (Read r) = True"
| "is_read e = False"

text \<open>
  \<open>sync.RWMutex\<close>, as its documentation specifies it: the state is the number of
  read locks held and whether the write lock is held. \<open>mu_step\<close> is \<open>None\<close> where
  the operation cannot proceed in that state (\<open>RLock\<close> while the write lock is held,
  \<open>Lock\<close> while any lock is held, an unlock of a lock that is not held); events
  other than lock operations leave the state as it is. \<open>mu_admits s t\<close>: the
  schedule \<open>t\<close>, an interleaving of the traces of concurrent calls, can run from
  state \<open>s\<close> with every lock operation proceeding when it is reached.
\<close>

fun mu_step :: "nat \<times> bool \<Rightarrow> event \<Rightarrow> (nat \<times> bool) option" where
  "mu_step (n, w) RLock = (if w then None else Some (Suc n, w))"
| "mu_step (n, w) RUnlock = (if n = 0 then None else Some (n - 1, w))"
| "mu_step (n, w) Lock = (if w \<or> 0 < n then None else Some (n, True))"
| "mu_step (n, w) Unlock = (if w then Some (n, False) else None)"
| "mu_step (n, w) e = Some (n, w)"

fun mu_admits :: "nat \<times> bool \<Rightarrow> event list \<Rightarrow> bool" where
  "mu_admits s [] = True"
| "mu_admits s (e # es) =
     (case mu_step s e of None \<Rightarrow> False | Some s' \<Rightarrow> mu_admits s' es)"

section \<open>An example device\<close>

text \<open>
  One device (reference 1) that the native layer opens as handle 10, and one
  (reference 2) that it cannot open: \<open>uvc_open\<close> then reports \<open>-4\<close> and leaves the
  out-parameter as it was. The negotiation accepts 640 x 480 only.
\<close>

definition dev_closed :: Device where
  "dev_closed = \<lparr>dev = Some 1, handle = None\<rparr>"

definition dev_open :: Device where
  "dev_open = \<lparr>dev = Some 1, handle = Some 10\<rparr>"

definition dev_unplugged :: Device where
  "dev_unplugged = \<lparr>dev = Some 2, handle = None\<rparr>"

definition ex_env :: env where
  "ex_env =
     \<lparr>newError = (\<lambda>r. if r = 0 then None else Some (Translated (unat r))),
      uvc_open = (\<lambda>dv cur. if dv = Some 1 then (0, Some 10) else (- 4, cur)),
      uvc_set_ae_mode = (\<lambda>h m. 0),
      uvc_set_ae_priority = (\<lambda>h p. 0),
      uvc_set_exposure_rel = (\<lambda>h x. 0),
      uvc_set_brightness = (\<lambda>h b. 0),
      uvc_get_stream_ctrl_format_size =
        (\<lambda>h f w ht fps. if w = 640 \<and> ht = 480 then (0, [1, 2, 3]) else (- 51, []))\<rparr>"

text \<open>
  The capability tree of handle 10: two streaming interfaces (at 20 and 21); the
  first has an uncompressed format (at 30, 16 bits per pixel) and an MJPEG format
  (at 31, flags 1); the uncompressed format has a discrete-mode frame (at 40, two
  intervals) and a continuous-mode frame (at 41).
\<close>

definition ex_devh10 :: uvc_device_handle_t where
  "ex_devh10 =
     \<lparr>info_ctrl_if = \<lparr>bcdUVC = 256, bInterfaceNumber_ci = 0, bEndpointAddress_ci = 131,
                       dwClockFrequency = 48000000\<rparr>,
      info_stream_ifs = Some 20,
      streams = None\<rparr>"

definition ex_stream_if20 :: uvc_streaming_interface_t where
  "ex_stream_if20 =
     \<lparr>next_si = Some 21, bInterfaceNumber_si = 1, bEndpointAddress_si = 129,
      bTerminalLink = 3, format_descs = Some 30\<rparr>"

definition ex_stream_if21 :: uvc_streaming_interface_t where
  "ex_stream_if21 =
     \<lparr>next_si = None, bInterfaceNumber_si = 2, bEndpointAddress_si = 130,
      bTerminalLink = 4, format_descs = None\<rparr>"

definition ex_format30 :: uvc_format_desc_t where
  "ex_format30 =
     \<lparr>next_fmt = Some 31, bDescriptorSubtype_fmt = 4, bFormatIndex = 1,
      bNumFrameDescriptors = 2, anon1 = 16, bDefaultFrameIndex = 1, bAspectRatioX = 0,
      bAspectRatioY = 0, bmInterlaceFlags = 0, bCopyProtect = 0, bVariableSize = 0,
      frame_descs = Some 40\<rparr>"

definition ex_format31 :: uvc_format_desc_t where
  "ex_format31 =
     \<lparr>next_fmt = None, bDescriptorSubtype_fmt = 6, bFormatIndex = 2,
      bNumFrameDescriptors = 0, anon1 = 1, bDefaultFrameIndex = 1, bAspectRatioX = 0,
      bAspectRatioY = 0, bmInterlaceFlags = 0, bCopyProtect = 0, bVariableSize = 0,
      frame_descs = None\<rparr>"

definition ex_frame40 :: uvc_frame_desc_t where
  "ex_frame40 =
     \<lparr>next_frm = Some 41, bDescriptorSubtype_frm = 5, bFrameIndex = 1, bmCapabilities = 0,
      wWidth = 640, wHeight = 480, dwMinBitRate = 73728000, dwMaxBitRate = 147456000,
      dwMaxVideoFrameBufferSize = 614400, dwDefaultFrameInterval = 333333,
      dwMinFrameInterval = 0, dwMaxFrameInterval = 0, dwFrameIntervalStep = 0,
      bFrameIntervalType = 2, dwBytesPerLine = 1280, intervals = [333333, 666666]\<rparr>"

definition ex_frame41 :: uvc_frame_desc_t where
  "ex_frame41 =
     \<lparr>next_frm = None, bDescriptorSubtype_frm = 5, bFrameIndex = 2, bmCapabilities = 0,
      wWidth = 320, wHeight = 240, dwMinBitRate = 18432000, dwMaxBitRate = 36864000,
      dwMaxVideoFrameBufferSize = 153600, dwDefaultFrameInterval = 333333,
      dwMinFrameInterval = 333333, dwMaxFrameInterval = 1000000,
      dwFrameIntervalStep = 333333, bFrameIntervalType = 0, dwBytesPerLine = 640,
      intervals = []\<rparr>"

definition ex_mem :: memory where
  "ex_mem =
     \<lparr>mem_devh = [10 \<mapsto> ex_devh10],
      mem_stream_if = [20 \<mapsto> ex_stream_if20, 21 \<mapsto> ex_stream_if21],
      mem_format_desc = [30 \<mapsto> ex_format30, 31 \<mapsto> ex_format31],
      mem_frame_desc = [40 \<mapsto> ex_frame40, 41 \<mapsto> ex_frame41]\<rparr>"

section \<open>Facts about the loops and the example\<close>

text \<open>
  The loop returns exactly when the native list is well formed, and then it has
  visited the nodes of the list in order.
\<close>

lemma for_each_node_nil:
  "for_each_node H nxt mk rd None out evs = Some (out, evs)"
  by (subst for_each_node.simps) simp

lemma for_each_node_step:
  "H a = Some n \<Longrightarrow>
   for_each_node H nxt mk rd (Some a) out evs =
   for_each_node H nxt mk rd (nxt n) (out @ [mk a n]) (evs @ [Read (rd a)])"
  by (subst for_each_node.simps) simp

lemma for_each_node_unallocated:
  "H a = None \<Longrightarrow> for_each_node H nxt mk rd (Some a) out evs = None"
  by (subst for_each_node.simps) simp

lemma for_each_node_chain:
  "chain H nxt p as \<Longrightarrow>
   for_each_node H nxt mk rd p out evs =
   Some (out @ map (\<lambda>a. mk a (the (H a))) as, evs @ map (\<lambda>a. Read (rd a)) as)"
proof (induction as arbitrary: p out evs)
  case Nil
  then show ?case by (simp add: for_each_node_nil)
next
  case (Cons a as)
  from Cons.prems obtain n where p: "p = Some a" and n: "H a = Some n"
    and rest: "chain H nxt (nxt n) as"
    by (auto split: option.splits)
  have "for_each_node H nxt mk rd p out evs =
        for_each_node H nxt mk rd (nxt n) (out @ [mk a n]) (evs @ [Read (rd a)])"
    using n by (simp add: p for_each_node_step)
  also have "\<dots> = Some ((out @ [mk a n]) @ map (\<lambda>a. mk a (the (H a))) as,
                        (evs @ [Read (rd a)]) @ map (\<lambda>a. Read (rd a)) as)"
    by (rule Cons.IH [OF rest])
  finally show ?case by (simp add: n)
qed

lemma for_each_node_returns_chain:
  fixes H :: "nat \<rightharpoonup> 'n" and mk :: "nat \<Rightarrow> 'n \<Rightarrow> 'v"
  assumes "for_each_node H nxt mk rd p out evs = Some res"
  shows "\<exists>as. chain H nxt p as"
proof (rule for_each_node.raw_induct
    [where P = "\<lambda>H nxt mk rd p out evs res. \<exists>as. chain H nxt p as", OF _ assms])
  fix f :: "(nat \<rightharpoonup> 'n) \<Rightarrow> ('n \<Rightarrow> ptr) \<Rightarrow> (nat \<Rightarrow> 'n \<Rightarrow> 'v) \<Rightarrow> (nat \<Rightarrow> mem_ref)
     \<Rightarrow> ptr \<Rightarrow> 'v list \<Rightarrow> event list \<Rightarrow> ('v list \<times> event list) option"
  fix H nxt mk rd p out evs res
  assume IH: "\<And>H nxt mk rd p out evs res.
      f H nxt mk rd p out evs = Some res \<Longrightarrow> \<exists>as. chain H nxt p as"
  assume body: "(case p of None \<Rightarrow> Some (out, evs)
      | Some a \<Rightarrow> (case H a of None \<Rightarrow> None
          | Some n \<Rightarrow> f H nxt mk rd (nxt n) (out @ [mk a n]) (evs @ [Read (rd a)]))) = Some res"
  show "\<exists>as. chain H nxt p as"
  proof (cases p)
    case None
    then have "chain H nxt p []" by simp
    then show ?thesis ..
  next
    case (Some a)
    with body obtain n where n: "H a = Some n"
      and call: "f H nxt mk rd (nxt n) (out @ [mk a n]) (evs @ [Read (rd a)]) = Some res"
      by (auto split: option.splits)
    from IH [OF call] obtain as where "chain H nxt (nxt n) as" ..
    with Some n have "chain H nxt p (a # as)" by simp
    then show ?thesis ..
  qed
qed

lemma chain_allocated:
  "chain H nxt p as \<Longrightarrow> a \<in> set as \<Longrightarrow> \<exists>n. H a = Some n"
  by (induction as arbitrary: p) (auto split: option.splits)

lemma chain_functional:
  "chain H nxt p as \<Longrightarrow> chain H nxt p bs \<Longrightarrow> as = bs"
proof (induction as arbitrary: p bs)
  case Nil
  then show ?case by (cases bs) auto
next
  case (Cons a as)
  then show ?case by (cases bs) (auto split: option.splits)
qed


lemma for_each_node_SomeD:
  assumes "for_each_node H nxt mk rd p out evs = Some (res, evs')"
  shows "\<exists>as. chain H nxt p as \<and> res = out @ map (\<lambda>a. mk a (the (H a))) as
             \<and> evs' = evs @ map (\<lambda>a. Read (rd a)) as"
proof -
  from for_each_node_returns_chain [OF assms] obtain as where c: "chain H nxt p as" ..
  from for_each_node_chain [OF c, of mk rd out evs] assms c show ?thesis by auto
qed

lemma reads_under_rlock_reads:
  "\<forall>e\<in>set mid. is_read e \<Longrightarrow> 0 < n \<Longrightarrow>
   reads_under_rlock n (mid @ rest) = reads_under_rlock n rest"
proof (induction mid)
  case Nil
  then show ?case by simp
next
  case (Cons e mid)
  then show ?case by (cases e) auto
qed

lemma StreamInterfaces_SomeD:
  assumes "StreamInterfaces M d = Some (ifs, d', evs)" and "handle d = Some h"
  shows "\<exists>hs as. mem_devh M h = Some hs
           \<and> chain (mem_stream_if M) next_si (info_stream_ifs hs) as
           \<and> ifs = map (\<lambda>a. new_StreamInterface a (the (mem_stream_if M a))) as
           \<and> d' = d
           \<and> evs = RLock # (Read (DevH h) # map (\<lambda>a. Read (StreamIf a)) as) @ [RUnlock]"
proof -
  from assms obtain hs ifs' evs0 where hs: "mem_devh M h = Some hs"
    and loop: "for_each_node (mem_stream_if M) next_si new_StreamInterface StreamIf
                 (info_stream_ifs hs) [] [RLock, Read (DevH h)] = Some (ifs', evs0)"
    and res: "ifs = ifs'" "d' = d" "evs = evs0 @ [RUnlock]"
    by (auto simp add: StreamInterfaces_def split: option.splits)
  from for_each_node_SomeD [OF loop] hs res show ?thesis by auto
qed

lemma FormatDescriptors_SomeD:
  assumes "FormatDescriptors M i = Some (fds, evs)" and "itf_si i = Some s"
  shows "\<exists>si as. mem_stream_if M s = Some si
           \<and> chain (mem_format_desc M) next_fmt (format_descs si) as
           \<and> fds = map (\<lambda>a. new_FormatDescriptor a (the (mem_format_desc M a))) as
           \<and> evs = Read (StreamIf s) # map (\<lambda>a. Read (FormatDesc a)) as"
proof -
  from assms obtain si where si: "mem_stream_if M s = Some si"
    and loop: "for_each_node (mem_format_desc M) next_fmt new_FormatDescriptor FormatDesc
                 (format_descs si) [] [Read (StreamIf s)] = Some (fds, evs)"
    by (auto simp add: FormatDescriptors_def split: option.splits)
  from for_each_node_SomeD [OF loop] si show ?thesis by auto
qed

lemma FrameDescriptors_SomeD:
  assumes "FrameDescriptors M f = Some (frs, evs)" and "desc_fmt f = Some s"
  shows "\<exists>fm as. mem_format_desc M s = Some fm
           \<and> chain (mem_frame_desc M) next_frm (frame_descs fm) as
           \<and> frs = map (\<lambda>a. new_FrameDescriptor a (the (mem_frame_desc M a))) as
           \<and> evs = Read (FormatDesc s) # map (\<lambda>a. Read (FrameDesc a)) as"
proof -
  from assms obtain fm where fm: "mem_format_desc M s = Some fm"
    and loop: "for_each_node (mem_frame_desc M) next_frm new_FrameDescriptor FrameDesc
                 (frame_descs fm) [] [Read (FormatDesc s)] = Some (frs, evs)"
    by (auto simp add: FrameDescriptors_def split: option.splits)
  from for_each_node_SomeD [OF loop] fm show ?thesis by auto
qed

text \<open>
  The catalog of the example device.
\<close>

lemma ex_stream_chain:
  "chain (mem_stream_if ex_mem) next_si (info_stream_ifs ex_devh10) [20, 21]"
  by (simp add: ex_mem_def ex_devh10_def ex_stream_if20_def ex_stream_if21_def)

lemma ex_format_chain:
  "chain (mem_format_desc ex_mem) next_fmt (format_descs ex_stream_if20) [30, 31]"
  by (simp add: ex_mem_def ex_stream_if20_def ex_format30_def ex_format31_def)

lemma ex_frame_chain:
  "chain (mem_frame_desc ex_mem) next_frm (frame_descs ex_format30) [40, 41]"
  by (simp add: ex_mem_def ex_format30_def ex_frame40_def ex_frame41_def)

lemma ex_StreamInterfaces:
  "StreamInterfaces ex_mem dev_open =
   Some ([new_StreamInterface 20 ex_stream_if20, new_StreamInterface 21 ex_stream_if21],
         dev_open,
         [RLock, Read (DevH 10), Read (StreamIf 20), Read (StreamIf 21), RUnlock])"
proof -
  have "for_each_node (mem_stream_if ex_mem) next_si new_StreamInterface StreamIf
          (info_stream_ifs ex_devh10) [] [RLock, Read (DevH 10)] =
        Some ([new_StreamInterface 20 ex_stream_if20, new_StreamInterface 21 ex_stream_if21],
              [RLock, Read (DevH 10), Read (StreamIf 20), Read (StreamIf 21)])"
    unfolding for_each_node_chain [OF ex_stream_chain] by (simp add: ex_mem_def)
  then show ?thesis
    by (simp add: StreamInterfaces_def dev_open_def ex_mem_def)
qed

lemma ex_FormatDescriptors:
  "FormatDescriptors ex_mem (new_StreamInterface 20 ex_stream_if20) =
   Some ([new_FormatDescriptor 30 ex_format30, new_FormatDescriptor 31 ex_format31],
         [Read (StreamIf 20), Read (FormatDesc 30), Read (FormatDesc 31)])"
proof -
  have "for_each_node (mem_format_desc ex_mem) next_fmt new_FormatDescriptor FormatDesc
          (format_descs ex_stream_if20) [] [Read (StreamIf 20)] =
        Some ([new_FormatDescriptor 30 ex_format30, new_FormatDescriptor 31 ex_format31],
              [Read (StreamIf 20), Read (FormatDesc 30), Read (FormatDesc 31)])"
    unfolding for_each_node_chain [OF ex_format_chain] by (simp add: ex_mem_def)
  then show ?thesis
    by (simp add: FormatDescriptors_def new_StreamInterface_def ex_mem_def)
qed

lemma ex_FrameDescriptors:
  "FrameDescriptors ex_mem (new_FormatDescriptor 30 ex_format30) =
   Some ([new_FrameDescriptor 40 ex_frame40, new_FrameDescriptor 41 ex_frame41],
         [Read (FormatDesc 30), Read (FrameDesc 40), Read (FrameDesc 41)])"
proof -
  have "for_each_node (mem_frame_desc ex_mem) next_frm new_FrameDescriptor FrameDesc
          (frame_descs ex_format30) [] [Read (FormatDesc 30)] =
        Some ([new_FrameDescriptor 40 ex_frame40, new_FrameDescriptor 41 ex_frame41],
              [Read (FormatDesc 30), Read (FrameDesc 40), Read (FrameDesc 41)])"
    unfolding for_each_node_chain [OF ex_frame_chain] by (simp add: ex_mem_def)
  then show ?thesis
    by (simp add: FrameDescriptors_def new_FormatDescriptor_def ex_mem_def)
qed

lemma reads_under_rlock_bracket:
  assumes "\<forall>e\<in>set mid. is_read e"
  shows "reads_under_rlock 0 (RLock # mid @ [RUnlock])"
  using reads_under_rlock_reads [OF assms, of "Suc 0" "[RUnlock]"] by simp

lemma ControlInterface_SomeD:
  assumes "ControlInterface M d = Some (c, d', evs)" and "handle d = Some h"
  shows "\<exists>hs. mem_devh M h = Some hs \<and> d' = d \<and> evs = [RLock, Read (DevH h), RUnlock]
           \<and> (\<exists>ci. c = Some ci \<and> itf_ci ci = info_ctrl_if hs
                 \<and> BcdUVC ci = bcdUVC (info_ctrl_if hs)
                 \<and> Number_ci ci = bInterfaceNumber_ci (info_ctrl_if hs)
                 \<and> EndpointAddress_ci ci = bEndpointAddress_ci (info_ctrl_if hs)
                 \<and> ClockFrequency ci = dwClockFrequency (info_ctrl_if hs))"
  using assms by (auto simp add: ControlInterface_def split: option.splits)

lemma ex_ControlInterface:
  "ControlInterface ex_mem dev_open =
   Some (Some \<lparr>itf_ci = info_ctrl_if ex_devh10, BcdUVC = 256, Number_ci = 0,
                EndpointAddress_ci = 131, ClockFrequency = 48000000\<rparr>,
         dev_open, [RLock, Read (DevH 10), RUnlock])"
  by (simp add: ControlInterface_def dev_open_def ex_mem_def ex_devh10_def)

lemma ex_GetStream:
  "GetStream ex_env dev_open 7 640 480 30 =
   ((Some \<lparr>devh = Some 10, ctrl = [1, 2, 3]\<rparr>, None), dev_open,
    [RLock, Call (Uvc_get_stream_ctrl_format_size (Some 10) 7 640 480 30), RUnlock])"
  by (simp add: GetStream_def ex_env_def dev_open_def)

text \<open>
  A call that holds the read lock from its first event to its last and a call that
  holds the write lock from its first event to its last cannot overlap.
\<close>

lemma reader_runs_to_RUnlock:
  assumes "\<forall>e\<in>set mid. is_read e" and "0 < n"
    and "t \<in> shuffles (mid @ [RUnlock]) (Lock # rest)"
    and "mu_admits (n, False) t"
  shows "t = (mid @ [RUnlock]) @ Lock # rest"
  using assms
proof (induction mid arbitrary: t)
  case Nil
  from Nil.prems(3) obtain z zs where t: "t = z # zs"
    by (cases t) auto
  show ?case
  proof (cases "z = Lock")
    case True
    with Nil.prems(2,4) t show ?thesis by simp
  next
    case False
    with Nil.prems(3) t have "z = RUnlock" and "zs \<in> shuffles [] (Lock # rest)"
      by (auto simp add: Cons_in_shuffles_iff)
    with t show ?thesis by simp
  qed
next
  case (Cons e mid)
  from Cons.prems(3) obtain z zs where t: "t = z # zs"
    by (cases t) auto
  show ?case
  proof (cases "z = Lock")
    case True
    with Cons.prems(2,4) t show ?thesis by simp
  next
    case False
    with Cons.prems(3) t have z: "z = e" and zs: "zs \<in> shuffles (mid @ [RUnlock]) (Lock # rest)"
      by (auto simp add: Cons_in_shuffles_iff)
    from Cons.prems(1) obtain r where e: "e = Read r" by (cases e) auto
    from Cons.prems(4) t z e have "mu_admits (n, False) zs" by simp
    from Cons.IH [OF _ Cons.prems(2) zs this] Cons.prems(1) t z show ?thesis by simp
  qed
qed

lemma writer_runs_to_Unlock:
  assumes "t \<in> shuffles (RLock # rest) [Call c, Unlock]"
    and "mu_admits (0, True) t"
  shows "t = [Call c, Unlock] @ RLock # rest"
proof -
  from assms(1) obtain z zs where t: "t = z # zs" by (cases t) auto
  from assms(2) t have "z \<noteq> RLock" by auto
  with assms(1) t have z: "z = Call c" and zs: "zs \<in> shuffles (RLock # rest) [Unlock]"
    by (auto simp add: Cons_in_shuffles_iff)
  from zs obtain y ys where zs': "zs = y # ys" by (cases zs) auto
  from assms(2) t z zs' have "y \<noteq> RLock" by auto
  with zs zs' have "y = Unlock" and "ys \<in> shuffles (RLock # rest) []"
    by (auto simp add: Cons_in_shuffles_iff)
  with t z zs' show ?thesis by simp
qed

lemma bracketed_exclusion:
  assumes "\<forall>e\<in>set mid. is_read e"
    and "t \<in> shuffles (RLock # mid @ [RUnlock]) [Lock, Call c, Unlock]"
    and "mu_admits (0, False) t"
  shows "t = (RLock # mid @ [RUnlock]) @ [Lock, Call c, Unlock]
       \<or> t = [Lock, Call c, Unlock] @ (RLock # mid @ [RUnlock])"
proof -
  from assms(2) obtain z zs where t: "t = z # zs" by (cases t) auto
  from assms(2) t consider
    (reader) "z = RLock" "zs \<in> shuffles (mid @ [RUnlock]) [Lock, Call c, Unlock]"
    | (writer) "z = Lock" "zs \<in> shuffles (RLock # mid @ [RUnlock]) [Call c, Unlock]"
    by (auto simp add: Cons_in_shuffles_iff)
  then show ?thesis
  proof cases
    case reader
    from assms(3) t reader(1) have "mu_admits (Suc 0, False) zs" by simp
    from reader_runs_to_RUnlock [OF assms(1) _ reader(2) this] t reader(1)
    show ?thesis by simp
  next
    case writer
    from assms(3) t writer(1) have "mu_admits (0, True) zs" by simp
    from writer_runs_to_Unlock [OF writer(2) this] t writer(1)
    show ?thesis by simp
  qed
qed

lemma StreamInterfaces_trace:
  assumes "StreamInterfaces M d = Some (ifs, d1, evs)"
  shows "\<exists>mid. evs = RLock # mid @ [RUnlock] \<and> (\<forall>e\<in>set mid. is_read e)"
proof (cases "handle d")
  case None
  with assms have "evs = RLock # [] @ [RUnlock]" by (simp add: StreamInterfaces_def)
  then show ?thesis by (intro exI [of _ "[]"]) simp
next
  case (Some h)
  from StreamInterfaces_SomeD [OF assms Some] obtain as where
    "evs = RLock # (Read (DevH h) # map (\<lambda>a. Read (StreamIf a)) as) @ [RUnlock]"
    by blast
  then show ?thesis
    by (intro exI [of _ "Read (DevH h) # map (\<lambda>a. Read (StreamIf a)) as"]) auto
qed

lemma ControlInterface_trace:
  assumes "ControlInterface M d = Some (c, d2, evs)"
  shows "\<exists>mid. evs = RLock # mid @ [RUnlock] \<and> (\<forall>e\<in>set mid. is_read e)"
proof (cases "handle d")
  case None
  with assms have "evs = RLock # [] @ [RUnlock]" by (simp add: ControlInterface_def)
  then show ?thesis by (intro exI [of _ "[]"]) simp
next
  case (Some h)
  from ControlInterface_SomeD [OF assms Some] have "evs = RLock # [Read (DevH h)] @ [RUnlock]"
    by auto
  then show ?thesis by (intro exI [of _ "[Read (DevH h)]"]) simp
qed

lemma FormatDescriptors_trace:
  assumes "FormatDescriptors M i = Some (fds, evs)"
  shows "\<forall>e\<in>set evs. is_read e"
proof (cases "itf_si i")
  case None
  with assms show ?thesis by (simp add: FormatDescriptors_def)
next
  case (Some s)
  from FormatDescriptors_SomeD [OF assms Some] show ?thesis by auto
qed

lemma FrameDescriptors_trace:
  assumes "FrameDescriptors M f = Some (frs, evs)"
  shows "\<forall>e\<in>set evs. is_read e"
proof (cases "desc_fmt f")
  case None
  with assms show ?thesis by (simp add: FrameDescriptors_def)
next
  case (Some s)
  from FrameDescriptors_SomeD [OF assms Some] show ?thesis by auto
qed

lemma ex_Close:
  "Close dev_open = (None, dev_closed, [Lock, Call (Uvc_close (Some 10)), Unlock])"
  by (simp add: Close_def dev_open_def dev_closed_def)

lemma ex_schedule:
  "[RLock, Read (DevH 10), Read (StreamIf 20), Read (StreamIf 21), RUnlock,
    Lock, Call (Uvc_close (Some 10)), Unlock]
   \<in> shuffles [RLock, Read (DevH 10), Read (StreamIf 20), Read (StreamIf 21), RUnlock]
        [Lock, Call (Uvc_close (Some 10)), Unlock]"
  by (simp add: Cons_in_shuffles_iff)

section \<open>The device handle: guards, open and close\<close>

text \<open>
  Claim C2 (evaluation at the failing input). \<open>Close\<close> has no guard on the handle:
  on a closed device it still calls the native \<open>uvc_close\<close>, with the nil handle
  as its argument.
\<close>

theorem Close_on_closed_calls_native_close:
  "handle dev_closed = None
   \<and> Close dev_closed = (None, dev_closed, [Lock, Call (Uvc_close None), Unlock])
   \<and> native_calls (snd (snd (Close dev_closed))) = [Uvc_close None]"
  by (simp add: Close_def dev_closed_def)

text \<open>
  Claim C3. On a closed device (no handle) each of \<open>SetAEMode\<close>, \<open>SetAEPriority\<close>,
  \<open>SetExposureRelative\<close>, \<open>SetBrightness\<close> and \<open>GetStream\<close> returns \<open>ErrDeviceClosed\<close>,
  leaves the device as it was and only takes and releases the read lock: its trace
  holds no native call, whatever the native layer and \<open>newError\<close> would answer.
  \<open>GetStream\<close> returns no stream.
\<close>

theorem closed_device_guards:
  assumes "handle d = None"
  shows "SetAEMode E d mode = (Some ErrDeviceClosed, d, [RLock, RUnlock])
       \<and> SetAEPriority E d priority = (Some ErrDeviceClosed, d, [RLock, RUnlock])
       \<and> SetExposureRelative E d exposure = (Some ErrDeviceClosed, d, [RLock, RUnlock])
       \<and> SetBrightness E d brightness = (Some ErrDeviceClosed, d, [RLock, RUnlock])
       \<and> GetStream E d format width height fps =
           ((None, Some ErrDeviceClosed), d, [RLock, RUnlock])
       \<and> native_calls [RLock, RUnlock] = []"
  using assms
  by (simp add: SetAEMode_def SetAEPriority_def SetExposureRelative_def SetBrightness_def
      GetStream_def)

theorem closed_device_guards_witness:
  "handle dev_closed = None
   \<and> SetAEMode ex_env dev_closed 2 = (Some ErrDeviceClosed, dev_closed, [RLock, RUnlock])
   \<and> SetAEPriority ex_env dev_closed 1 = (Some ErrDeviceClosed, dev_closed, [RLock, RUnlock])
   \<and> SetExposureRelative ex_env dev_closed 5 =
       (Some ErrDeviceClosed, dev_closed, [RLock, RUnlock])
   \<and> SetBrightness ex_env dev_closed 100 = (Some ErrDeviceClosed, dev_closed, [RLock, RUnlock])
   \<and> GetStream ex_env dev_closed 7 640 480 30 =
       ((None, Some ErrDeviceClosed), dev_closed, [RLock, RUnlock])"
proof -
  have h: "handle dev_closed = None" by (simp add: dev_closed_def)
  show ?thesis
    using h closed_device_guards [OF h, of ex_env 2 1 5 100 7 640 480 30] by simp
qed

text \<open>
  Claim C4. Let \<open>r\<close> be the status \<open>uvc_open\<close> returns and \<open>h\<close> what it leaves in
  \<open>dev.handle\<close>. (1) On an open device \<open>Open\<close> returns nil, makes no native call and
  leaves the device as it was. (2) On a closed device \<open>Open\<close> makes exactly one
  native call, returns the translation of \<open>r\<close> and keeps \<open>h\<close> as the handle. So
  (3) when \<open>r\<close> translates to an error \<open>e\<close> and the native call left the handle
  empty, \<open>Open\<close> returns \<open>e\<close> and the device is unchanged, still closed; and (4) when
  \<open>r\<close> translates to nil and the native call stored a handle, \<open>Open\<close> returns nil
  and the device is open with that handle.
\<close>

theorem Open_idempotent_atomic:
  assumes "uvc_open E (dev d) (handle d) = (r, h)"
  shows "(handle d \<noteq> None \<longrightarrow> Open E d = (None, d, [Lock, Unlock]))
       \<and> (handle d = None \<longrightarrow>
            Open E d = (newError E r, d\<lparr>handle := h\<rparr>, [Lock, Call (Uvc_open (dev d)), Unlock]))
       \<and> (handle d = None \<and> newError E r = Some e \<and> h = None \<longrightarrow>
            Open E d = (Some e, d, [Lock, Call (Uvc_open (dev d)), Unlock]))
       \<and> (handle d = None \<and> newError E r = None \<and> h \<noteq> None \<longrightarrow>
            Open E d = (None, d\<lparr>handle := h\<rparr>, [Lock, Call (Uvc_open (dev d)), Unlock])
            \<and> handle (fst (snd (Open E d))) \<noteq> None)"
  using assms by (cases d) (auto simp add: Open_def)

theorem Open_idempotent_atomic_witness:
  "Open ex_env dev_open = (None, dev_open, [Lock, Unlock])
   \<and> Open ex_env dev_unplugged =
       (Some (Translated 4294967292), dev_unplugged, [Lock, Call (Uvc_open (Some 2)), Unlock])
   \<and> Open ex_env dev_closed = (None, dev_open, [Lock, Call (Uvc_open (Some 1)), Unlock])"
proof -
  have a: "uvc_open ex_env (dev dev_open) (handle dev_open) = (0, Some 10)"
    by (simp add: ex_env_def dev_open_def)
  have b: "uvc_open ex_env (dev dev_unplugged) (handle dev_unplugged) = (- 4, None)"
    by (simp add: ex_env_def dev_unplugged_def)
  have c: "uvc_open ex_env (dev dev_closed) (handle dev_closed) = (0, Some 10)"
    by (simp add: ex_env_def dev_closed_def)
  have nb: "newError ex_env (- 4) = Some (Translated 4294967292)"
    by (simp add: ex_env_def)
  have nc: "newError ex_env 0 = None"
    by (simp add: ex_env_def)
  show ?thesis
    using Open_idempotent_atomic [OF a, of ErrDeviceClosed]
      Open_idempotent_atomic [OF b, of "Translated 4294967292"]
      Open_idempotent_atomic [OF c, of ErrDeviceClosed] nb nc
    by (simp add: dev_open_def dev_closed_def dev_unplugged_def)
qed

text \<open>
  Claim C5. In every state \<open>Close\<close> returns nil and leaves the device without a
  handle, so that \<open>IsClosed\<close> holds (the device reference is kept). Its result is a
  function of the device alone: nothing the native teardown reports reaches the
  caller.
\<close>

theorem Close_always_succeeds:
  "fst (Close d) = None
   \<and> handle (fst (snd (Close d))) = None
   \<and> fst (IsClosed (fst (snd (Close d))))
   \<and> dev (fst (snd (Close d))) = dev d"
  by (simp add: Close_def IsClosed_def)

text \<open>
  Claim C8. On a closed device \<open>ControlInterface\<close> returns nil and
  \<open>StreamInterfaces\<close> returns the empty slice, both without reading native memory;
  neither has an error result.
\<close>

theorem closed_probes_degrade:
  assumes "handle d = None"
  shows "ControlInterface M d = Some (None, d, [RLock, RUnlock])
       \<and> StreamInterfaces M d = Some ([], d, [RLock, RUnlock])"
  using assms by (simp add: ControlInterface_def StreamInterfaces_def)

theorem closed_probes_degrade_witness:
  "handle dev_closed = None
   \<and> ControlInterface ex_mem dev_closed = Some (None, dev_closed, [RLock, RUnlock])
   \<and> StreamInterfaces ex_mem dev_closed = Some ([], dev_closed, [RLock, RUnlock])"
proof -
  have h: "handle dev_closed = None" by (simp add: dev_closed_def)
  show ?thesis
    using h closed_probes_degrade [OF h, of ex_mem] by simp
qed

text \<open>
  Claim C10, as the code has it. \<open>Ref\<close> and \<open>Unref\<close> pass the device reference (not
  the handle) to the native reference count, but only while the handle is open: on
  a closed device they take and release the read lock and do nothing else. In both
  cases the device is returned unchanged.
\<close>

theorem Ref_Unref_guarded:
  "(handle d \<noteq> None \<longrightarrow>
      Ref d = (d, [RLock, Call (Uvc_ref_device (dev d)), RUnlock])
    \<and> Unref d = (d, [RLock, Call (Uvc_unref_device (dev d)), RUnlock]))
   \<and> (handle d = None \<longrightarrow> Ref d = (d, [RLock, RUnlock]) \<and> Unref d = (d, [RLock, RUnlock]))"
  by (simp add: Ref_def Unref_def)

theorem Ref_Unref_guarded_witness:
  "Ref dev_open = (dev_open, [RLock, Call (Uvc_ref_device (Some 1)), RUnlock])
   \<and> Unref dev_open = (dev_open, [RLock, Call (Uvc_unref_device (Some 1)), RUnlock])
   \<and> Ref dev_closed = (dev_closed, [RLock, RUnlock])
   \<and> Unref dev_closed = (dev_closed, [RLock, RUnlock])"
  using Ref_Unref_guarded [of dev_open] Ref_Unref_guarded [of dev_closed]
  by (simp add: dev_open_def dev_closed_def)

text \<open>
  Claim C10 as stated fails: the device below has a native reference and no handle,
  and neither \<open>Ref\<close> nor \<open>Unref\<close> makes a native call on it.
\<close>

theorem Ref_Unref_closed_counterexample:
  "dev dev_closed = Some 1 \<and> handle dev_closed = None
   \<and> native_calls (snd (Ref dev_closed)) = []
   \<and> native_calls (snd (Unref dev_closed)) = []"
  by (simp add: Ref_def Unref_def dev_closed_def)

section \<open>The descriptor catalog: lock scope, pointers and fields\<close>

text \<open>
  Claim C1, as the code has it. \<open>StreamInterfaces\<close> and \<open>ControlInterface\<close> take the
  read lock first and release it last, and everything between is a read of native
  memory: the lock covers the whole walk of the list they return. Hence every
  schedule of a \<open>StreamInterfaces\<close> call and a concurrent \<open>Close\<close> that the mutex
  admits runs one of the two calls to its end before the other starts.
  \<open>FormatDescriptors\<close> and \<open>FrameDescriptors\<close> are separate calls on the returned
  values; their traces hold reads of native memory and no lock operation at all.
\<close>

theorem catalog_lock_scope:
  "(StreamInterfaces M d = Some (ifs, d1, evs1) \<longrightarrow>
      (\<exists>mid. evs1 = RLock # mid @ [RUnlock] \<and> (\<forall>e\<in>set mid. is_read e))
      \<and> reads_under_rlock 0 evs1)
   \<and> (ControlInterface M d = Some (c, d2, evs2) \<longrightarrow>
      (\<exists>mid. evs2 = RLock # mid @ [RUnlock] \<and> (\<forall>e\<in>set mid. is_read e))
      \<and> reads_under_rlock 0 evs2)
   \<and> (StreamInterfaces M d = Some (ifs, d1, evs1) \<and> Close d' = (err, d3, evs5)
        \<and> t \<in> shuffles evs1 evs5 \<and> mu_admits (0, False) t \<longrightarrow>
      t = evs1 @ evs5 \<or> t = evs5 @ evs1)
   \<and> (FormatDescriptors M i = Some (fds, evs3) \<longrightarrow> (\<forall>e\<in>set evs3. is_read e))
   \<and> (FrameDescriptors M f = Some (frs, evs4) \<longrightarrow> (\<forall>e\<in>set evs4. is_read e))"
proof (intro conjI impI)
  assume r: "StreamInterfaces M d = Some (ifs, d1, evs1)"
  from StreamInterfaces_trace [OF r]
  show "\<exists>mid. evs1 = RLock # mid @ [RUnlock] \<and> (\<forall>e\<in>set mid. is_read e)"
    and "reads_under_rlock 0 evs1"
    using reads_under_rlock_bracket by auto
next
  assume r: "ControlInterface M d = Some (c, d2, evs2)"
  from ControlInterface_trace [OF r]
  show "\<exists>mid. evs2 = RLock # mid @ [RUnlock] \<and> (\<forall>e\<in>set mid. is_read e)"
    and "reads_under_rlock 0 evs2"
    using reads_under_rlock_bracket by auto
next
  assume h: "StreamInterfaces M d = Some (ifs, d1, evs1) \<and> Close d' = (err, d3, evs5)
        \<and> t \<in> shuffles evs1 evs5 \<and> mu_admits (0, False) t"
  from h StreamInterfaces_trace obtain mid where
    evs1: "evs1 = RLock # mid @ [RUnlock]" and mid: "\<forall>e\<in>set mid. is_read e"
    by blast
  from h have evs5: "evs5 = [Lock, Call (Uvc_close (handle d')), Unlock]"
    by (auto simp add: Close_def)
  from h have t: "t \<in> shuffles evs1 evs5" and adm: "mu_admits (0, False) t" by simp_all
  from bracketed_exclusion [OF mid t [unfolded evs1 evs5] adm]
  show "t = evs1 @ evs5 \<or> t = evs5 @ evs1" unfolding evs1 evs5 .
next
  assume "FormatDescriptors M i = Some (fds, evs3)"
  then show "\<forall>e\<in>set evs3. is_read e" by (rule FormatDescriptors_trace)
next
  assume "FrameDescriptors M f = Some (frs, evs4)"
  then show "\<forall>e\<in>set evs4. is_read e" by (rule FrameDescriptors_trace)
qed

theorem catalog_lock_scope_witness:
  "StreamInterfaces ex_mem dev_open =
     Some ([new_StreamInterface 20 ex_stream_if20, new_StreamInterface 21 ex_stream_if21],
           dev_open, [RLock, Read (DevH 10), Read (StreamIf 20), Read (StreamIf 21), RUnlock])
   \<and> reads_under_rlock 0 [RLock, Read (DevH 10), Read (StreamIf 20), Read (StreamIf 21), RUnlock]
   \<and> ControlInterface ex_mem dev_open =
     Some (Some \<lparr>itf_ci = info_ctrl_if ex_devh10, BcdUVC = 256, Number_ci = 0,
                  EndpointAddress_ci = 131, ClockFrequency = 48000000\<rparr>,
           dev_open, [RLock, Read (DevH 10), RUnlock])
   \<and> reads_under_rlock 0 [RLock, Read (DevH 10), RUnlock]
   \<and> Close dev_open = (None, dev_closed, [Lock, Call (Uvc_close (Some 10)), Unlock])
   \<and> [RLock, Read (DevH 10), Read (StreamIf 20), Read (StreamIf 21), RUnlock,
       Lock, Call (Uvc_close (Some 10)), Unlock]
      \<in> shuffles [RLock, Read (DevH 10), Read (StreamIf 20), Read (StreamIf 21), RUnlock]
           [Lock, Call (Uvc_close (Some 10)), Unlock]
   \<and> mu_admits (0, False)
        [RLock, Read (DevH 10), Read (StreamIf 20), Read (StreamIf 21), RUnlock,
         Lock, Call (Uvc_close (Some 10)), Unlock]
   \<and> FormatDescriptors ex_mem (new_StreamInterface 20 ex_stream_if20) =
       Some ([new_FormatDescriptor 30 ex_format30, new_FormatDescriptor 31 ex_format31],
             [Read (StreamIf 20), Read (FormatDesc 30), Read (FormatDesc 31)])
   \<and> list_all is_read [Read (StreamIf 20), Read (FormatDesc 30), Read (FormatDesc 31)]
   \<and> FrameDescriptors ex_mem (new_FormatDescriptor 30 ex_format30) =
       Some ([new_FrameDescriptor 40 ex_frame40, new_FrameDescriptor 41 ex_frame41],
             [Read (FormatDesc 30), Read (FrameDesc 40), Read (FrameDesc 41)])
   \<and> list_all is_read [Read (FormatDesc 30), Read (FrameDesc 40), Read (FrameDesc 41)]"
  using catalog_lock_scope
    [of ex_mem dev_open
        "[new_StreamInterface 20 ex_stream_if20, new_StreamInterface 21 ex_stream_if21]"
        dev_open "[RLock, Read (DevH 10), Read (StreamIf 20), Read (StreamIf 21), RUnlock]"
        "Some \<lparr>itf_ci = info_ctrl_if ex_devh10, BcdUVC = 256, Number_ci = 0,
                EndpointAddress_ci = 131, ClockFrequency = 48000000\<rparr>"
        dev_open "[RLock, Read (DevH 10), RUnlock]"
        dev_open None dev_closed "[Lock, Call (Uvc_close (Some 10)), Unlock]"
        "[RLock, Read (DevH 10), Read (StreamIf 20), Read (StreamIf 21), RUnlock,
          Lock, Call (Uvc_close (Some 10)), Unlock]"
        "new_StreamInterface 20 ex_stream_if20"
        "[new_FormatDescriptor 30 ex_format30, new_FormatDescriptor 31 ex_format31]"
        "[Read (StreamIf 20), Read (FormatDesc 30), Read (FormatDesc 31)]"
        "new_FormatDescriptor 30 ex_format30"
        "[new_FrameDescriptor 40 ex_frame40, new_FrameDescriptor 41 ex_frame41]"
        "[Read (FormatDesc 30), Read (FrameDesc 40), Read (FrameDesc 41)]"]
    ex_StreamInterfaces ex_ControlInterface ex_FormatDescriptors ex_FrameDescriptors ex_Close
    ex_schedule
  by simp

text \<open>
  Claim C1 as stated fails. \<open>FormatDescriptors\<close>, called on a value
  \<open>StreamInterfaces\<close> returned, reads the native nodes at 20, 30 and 31 with no lock
  held, and the mutex admits the schedule in which a concurrent \<open>Close\<close> runs from
  \<open>Lock\<close> to \<open>Unlock\<close> after the first of these reads and before the other two.
\<close>

theorem child_walk_during_Close_counterexample:
  "StreamInterfaces ex_mem dev_open =
     Some ([new_StreamInterface 20 ex_stream_if20, new_StreamInterface 21 ex_stream_if21],
           dev_open, [RLock, Read (DevH 10), Read (StreamIf 20), Read (StreamIf 21), RUnlock])
   \<and> FormatDescriptors ex_mem (new_StreamInterface 20 ex_stream_if20) =
       Some ([new_FormatDescriptor 30 ex_format30, new_FormatDescriptor 31 ex_format31],
             [Read (StreamIf 20), Read (FormatDesc 30), Read (FormatDesc 31)])
   \<and> Close dev_open = (None, dev_closed, [Lock, Call (Uvc_close (Some 10)), Unlock])
   \<and> \<not> reads_under_rlock 0 [Read (StreamIf 20), Read (FormatDesc 30), Read (FormatDesc 31)]
   \<and> [Read (StreamIf 20), Lock, Call (Uvc_close (Some 10)), Unlock,
       Read (FormatDesc 30), Read (FormatDesc 31)]
      \<in> shuffles [Read (StreamIf 20), Read (FormatDesc 30), Read (FormatDesc 31)]
           [Lock, Call (Uvc_close (Some 10)), Unlock]
   \<and> mu_admits (0, False)
        [Read (StreamIf 20), Lock, Call (Uvc_close (Some 10)), Unlock,
         Read (FormatDesc 30), Read (FormatDesc 31)]"
  using ex_StreamInterfaces ex_FormatDescriptors ex_Close
  by (simp add: Cons_in_shuffles_iff)

text \<open>
  Claim C6, as the code has it. Every \<open>StreamInterface\<close>, \<open>FormatDescriptor\<close> and
  \<open>FrameDescriptor\<close> returned is the copy of the scalar fields of an allocated
  native node together with the address of that node (\<open>itf\<close>, \<open>desc\<close>), which the
  next catalog call dereferences. A \<open>ControlInterface\<close> holds a by-value copy of the
  native control-interface struct. A \<open>Stream\<close> returned by \<open>GetStream\<close> holds the
  device's handle pointer itself, and comes with no error.
\<close>

theorem returned_values_keep_native_pointers:
  "(StreamInterfaces M d = Some (ifs, d1, evs1) \<longrightarrow>
      (\<forall>si\<in>set ifs. \<exists>a n. mem_stream_if M a = Some n \<and> si = new_StreamInterface a n
                        \<and> itf_si si = Some a))
   \<and> (FormatDescriptors M i = Some (fds, evs2) \<longrightarrow>
      (\<forall>fd\<in>set fds. \<exists>a n. mem_format_desc M a = Some n \<and> fd = new_FormatDescriptor a n
                        \<and> desc_fmt fd = Some a))
   \<and> (FrameDescriptors M f = Some (frs, evs3) \<longrightarrow>
      (\<forall>fr\<in>set frs. \<exists>a n. mem_frame_desc M a = Some n \<and> fr = new_FrameDescriptor a n
                        \<and> desc_frm fr = Some a))
   \<and> (ControlInterface M d = Some (Some c, d4, evs4) \<longrightarrow>
      (\<exists>h hs. handle d = Some h \<and> mem_devh M h = Some hs \<and> itf_ci c = info_ctrl_if hs))
   \<and> (GetStream E d format width height fps = ((Some s, err), d5, evs5) \<longrightarrow>
      handle d \<noteq> None \<and> devh s = handle d \<and> err = None)"
proof (intro conjI impI)
  assume r: "StreamInterfaces M d = Some (ifs, d1, evs1)"
  show "\<forall>si\<in>set ifs. \<exists>a n. mem_stream_if M a = Some n \<and> si = new_StreamInterface a n
                        \<and> itf_si si = Some a"
  proof (cases "handle d")
    case None
    with r show ?thesis by (simp add: StreamInterfaces_def)
  next
    case (Some h)
    from StreamInterfaces_SomeD [OF r Some] obtain hs :: uvc_device_handle_t and as where
      c: "chain (mem_stream_if M) next_si (info_stream_ifs hs) as"
      and ifs: "ifs = map (\<lambda>a. new_StreamInterface a (the (mem_stream_if M a))) as"
      by blast
    show ?thesis
    proof
      fix si assume "si \<in> set ifs"
      with ifs obtain a where a: "a \<in> set as"
        and si: "si = new_StreamInterface a (the (mem_stream_if M a))" by auto
      from chain_allocated [OF c a] obtain n where n: "mem_stream_if M a = Some n" ..
      with si show "\<exists>a n. mem_stream_if M a = Some n \<and> si = new_StreamInterface a n
                        \<and> itf_si si = Some a"
        by (auto simp add: new_StreamInterface_def)
    qed
  qed
next
  assume r: "FormatDescriptors M i = Some (fds, evs2)"
  show "\<forall>fd\<in>set fds. \<exists>a n. mem_format_desc M a = Some n \<and> fd = new_FormatDescriptor a n
                        \<and> desc_fmt fd = Some a"
  proof (cases "itf_si i")
    case None
    with r show ?thesis by (simp add: FormatDescriptors_def)
  next
    case (Some s')
    from FormatDescriptors_SomeD [OF r Some] obtain si' :: uvc_streaming_interface_t and as where
      c: "chain (mem_format_desc M) next_fmt (format_descs si') as"
      and fds: "fds = map (\<lambda>a. new_FormatDescriptor a (the (mem_format_desc M a))) as"
      by blast
    show ?thesis
    proof
      fix fd assume "fd \<in> set fds"
      with fds obtain a where a: "a \<in> set as"
        and fd: "fd = new_FormatDescriptor a (the (mem_format_desc M a))" by auto
      from chain_allocated [OF c a] obtain n where n: "mem_format_desc M a = Some n" ..
      with fd show "\<exists>a n. mem_format_desc M a = Some n \<and> fd = new_FormatDescriptor a n
                        \<and> desc_fmt fd = Some a"
        by (auto simp add: new_FormatDescriptor_def)
    qed
  qed
next
  assume r: "FrameDescriptors M f = Some (frs, evs3)"
  show "\<forall>fr\<in>set frs. \<exists>a n. mem_frame_desc M a = Some n \<and> fr = new_FrameDescriptor a n
                        \<and> desc_frm fr = Some a"
  proof (cases "desc_fmt f")
    case None
    with r show ?thesis by (simp add: FrameDescriptors_def)
  next
    case (Some s')
    from FrameDescriptors_SomeD [OF r Some] obtain fm :: uvc_format_desc_t and as where
      c: "chain (mem_frame_desc M) next_frm (frame_descs fm) as"
      and frs: "frs = map (\<lambda>a. new_FrameDescriptor a (the (mem_frame_desc M a))) as"
      by blast
    show ?thesis
    proof
      fix fr assume "fr \<in> set frs"
      with frs obtain a where a: "a \<in> set as"
        and fr: "fr = new_FrameDescriptor a (the (mem_frame_desc M a))" by auto
      from chain_allocated [OF c a] obtain n where n: "mem_frame_desc M a = Some n" ..
      with fr show "\<exists>a n. mem_frame_desc M a = Some n \<and> fr = new_FrameDescriptor a n
                        \<and> desc_frm fr = Some a"
        by (auto simp add: new_FrameDescriptor_def)
    qed
  qed
next
  assume r: "ControlInterface M d = Some (Some c, d4, evs4)"
  then obtain h where h: "handle d = Some h"
    by (cases "handle d") (auto simp add: ControlInterface_def)
  from ControlInterface_SomeD [OF r h] h
  show "\<exists>h hs. handle d = Some h \<and> mem_devh M h = Some hs \<and> itf_ci c = info_ctrl_if hs"
    by auto
next
  assume r: "GetStream E d format width height fps = ((Some s, err), d5, evs5)"
  then show "handle d \<noteq> None"
    by (auto simp add: GetStream_def split: if_splits)
  from r show "devh s = handle d"
    by (auto simp add: GetStream_def split: if_splits prod.splits option.splits)
  from r show "err = None"
    by (auto simp add: GetStream_def split: if_splits prod.splits option.splits)
qed

theorem returned_values_keep_native_pointers_witness:
  "StreamInterfaces ex_mem dev_open =
     Some ([new_StreamInterface 20 ex_stream_if20, new_StreamInterface 21 ex_stream_if21],
           dev_open, [RLock, Read (DevH 10), Read (StreamIf 20), Read (StreamIf 21), RUnlock])
   \<and> FormatDescriptors ex_mem (new_StreamInterface 20 ex_stream_if20) =
       Some ([new_FormatDescriptor 30 ex_format30, new_FormatDescriptor 31 ex_format31],
             [Read (StreamIf 20), Read (FormatDesc 30), Read (FormatDesc 31)])
   \<and> FrameDescriptors ex_mem (new_FormatDescriptor 30 ex_format30) =
       Some ([new_FrameDescriptor 40 ex_frame40, new_FrameDescriptor 41 ex_frame41],
             [Read (FormatDesc 30), Read (FrameDesc 40), Read (FrameDesc 41)])
   \<and> ControlInterface ex_mem dev_open =
     Some (Some \<lparr>itf_ci = info_ctrl_if ex_devh10, BcdUVC = 256, Number_ci = 0,
                  EndpointAddress_ci = 131, ClockFrequency = 48000000\<rparr>,
           dev_open, [RLock, Read (DevH 10), RUnlock])
   \<and> GetStream ex_env dev_open 7 640 480 30 =
       ((Some \<lparr>devh = Some 10, ctrl = [1, 2, 3]\<rparr>, None), dev_open,
        [RLock, Call (Uvc_get_stream_ctrl_format_size (Some 10) 7 640 480 30), RUnlock])
   \<and> map itf_si [new_StreamInterface 20 ex_stream_if20, new_StreamInterface 21 ex_stream_if21]
       = [Some 20, Some 21]
   \<and> map desc_fmt [new_FormatDescriptor 30 ex_format30, new_FormatDescriptor 31 ex_format31]
       = [Some 30, Some 31]
   \<and> map desc_frm [new_FrameDescriptor 40 ex_frame40, new_FrameDescriptor 41 ex_frame41]
       = [Some 40, Some 41]
   \<and> handle dev_open = Some 10"
  using returned_values_keep_native_pointers
    [of ex_mem dev_open
        "[new_StreamInterface 20 ex_stream_if20, new_StreamInterface 21 ex_stream_if21]"
        dev_open "[RLock, Read (DevH 10), Read (StreamIf 20), Read (StreamIf 21), RUnlock]"
        "new_StreamInterface 20 ex_stream_if20"
        "[new_FormatDescriptor 30 ex_format30, new_FormatDescriptor 31 ex_format31]"
        "[Read (StreamIf 20), Read (FormatDesc 30), Read (FormatDesc 31)]"
        "new_FormatDescriptor 30 ex_format30"
        "[new_FrameDescriptor 40 ex_frame40, new_FrameDescriptor 41 ex_frame41]"
        "[Read (FormatDesc 30), Read (FrameDesc 40), Read (FrameDesc 41)]"
        "\<lparr>itf_ci = info_ctrl_if ex_devh10, BcdUVC = 256, Number_ci = 0,
          EndpointAddress_ci = 131, ClockFrequency = 48000000\<rparr>"
        dev_open "[RLock, Read (DevH 10), RUnlock]"
        ex_env 7 640 480 30 "\<lparr>devh = Some 10, ctrl = [1, 2, 3]\<rparr>" None dev_open
        "[RLock, Call (Uvc_get_stream_ctrl_format_size (Some 10) 7 640 480 30), RUnlock]"]
    ex_StreamInterfaces ex_FormatDescriptors ex_FrameDescriptors ex_ControlInterface ex_GetStream
  by (simp add: new_StreamInterface_def new_FormatDescriptor_def new_FrameDescriptor_def
      dev_open_def)

text \<open>
  Claim C6 as stated fails. The first \<open>StreamInterface\<close> returned for the open
  example device holds the native address 20, where the streaming interface is
  allocated; a later \<open>FormatDescriptors\<close> call on it reads that address. The \<open>Stream\<close>
  returned by \<open>GetStream\<close> holds the handle pointer 10 and the control block, and
  nothing else.
\<close>

theorem borrowed_pointer_counterexample:
  "StreamInterfaces ex_mem dev_open =
     Some ([new_StreamInterface 20 ex_stream_if20, new_StreamInterface 21 ex_stream_if21],
           dev_open, [RLock, Read (DevH 10), Read (StreamIf 20), Read (StreamIf 21), RUnlock])
   \<and> itf_si (new_StreamInterface 20 ex_stream_if20) = Some 20
   \<and> mem_stream_if ex_mem 20 = Some ex_stream_if20
   \<and> FormatDescriptors ex_mem (new_StreamInterface 20 ex_stream_if20) =
       Some ([new_FormatDescriptor 30 ex_format30, new_FormatDescriptor 31 ex_format31],
             [Read (StreamIf 20), Read (FormatDesc 30), Read (FormatDesc 31)])
   \<and> GetStream ex_env dev_open 7 640 480 30 =
       ((Some \<lparr>devh = Some 10, ctrl = [1, 2, 3]\<rparr>, None), dev_open,
        [RLock, Call (Uvc_get_stream_ctrl_format_size (Some 10) 7 640 480 30), RUnlock])
   \<and> handle dev_open = Some 10"
  using ex_StreamInterfaces ex_FormatDescriptors ex_GetStream
  by (simp add: new_StreamInterface_def ex_mem_def dev_open_def)

text \<open>
  Claim C7 (evaluation at the failing input). The native frame descriptor at 40 is
  in discrete mode (\<open>bFrameIntervalType = 2\<close>) with the intervals 333333 and 666666;
  the \<open>FrameDescriptor\<close> that \<open>FrameDescriptors\<close> returns for it has the same
  \<open>FrameIntervalType\<close> and an empty \<open>Intervals\<close>.
\<close>

theorem FrameDescriptors_Intervals_empty:
  "FrameDescriptors ex_mem (new_FormatDescriptor 30 ex_format30) =
     Some ([new_FrameDescriptor 40 ex_frame40, new_FrameDescriptor 41 ex_frame41],
           [Read (FormatDesc 30), Read (FrameDesc 40), Read (FrameDesc 41)])
   \<and> bFrameIntervalType ex_frame40 = 2
   \<and> intervals ex_frame40 = [333333, 666666]
   \<and> FrameIntervalType (new_FrameDescriptor 40 ex_frame40) = 2
   \<and> Intervals (new_FrameDescriptor 40 ex_frame40) = []"
  using ex_FrameDescriptors by (simp add: new_FrameDescriptor_def ex_frame40_def)

text \<open>
  Claim C9. (1) When the native format list of a streaming interface is well
  formed, \<open>FormatDescriptors\<close> returns, with one descriptor per native node, in list
  order. (2) Every descriptor \<open>FormatDescriptors\<close> returns has \<open>BitsPerPixel\<close> and
  \<open>Flags\<close> both equal to the packed byte \<open>anon1\<close> of its native node, hence equal to
  each other, whatever the subtype; \<open>Subtype\<close> is the node's subtype, for the
  consumer to choose by.
\<close>

theorem FormatDescriptors_packed_byte:
  "(itf_si i = Some s \<and> mem_stream_if M s = Some si
      \<and> chain (mem_format_desc M) next_fmt (format_descs si) as \<longrightarrow>
      (\<exists>fds evs. FormatDescriptors M i = Some (fds, evs) \<and> map desc_fmt fds = map Some as))
   \<and> (FormatDescriptors M i = Some (fds', evs') \<longrightarrow>
        (\<forall>fd\<in>set fds'. BitsPerPixel fd = Flags fd
           \<and> (\<exists>a n. desc_fmt fd = Some a \<and> mem_format_desc M a = Some n
                 \<and> BitsPerPixel fd = anon1 n \<and> Flags fd = anon1 n
                 \<and> Subtype_fmt fd = bDescriptorSubtype_fmt n)))"
proof (intro conjI impI)
  assume h: "itf_si i = Some s \<and> mem_stream_if M s = Some si
      \<and> chain (mem_format_desc M) next_fmt (format_descs si) as"
  then have c: "chain (mem_format_desc M) next_fmt (format_descs si) as" by simp
  have "FormatDescriptors M i =
        Some ([] @ map (\<lambda>a. new_FormatDescriptor a (the (mem_format_desc M a))) as,
              [Read (StreamIf s)] @ map (\<lambda>a. Read (FormatDesc a)) as)"
    using h by (simp add: FormatDescriptors_def for_each_node_chain [OF c])
  moreover have "map desc_fmt (map (\<lambda>a. new_FormatDescriptor a (the (mem_format_desc M a))) as)
                 = map Some as"
    by (simp add: new_FormatDescriptor_def)
  ultimately show "\<exists>fds evs. FormatDescriptors M i = Some (fds, evs)
                     \<and> map desc_fmt fds = map Some as"
    by simp
next
  assume r: "FormatDescriptors M i = Some (fds', evs')"
  show "\<forall>fd\<in>set fds'. BitsPerPixel fd = Flags fd
           \<and> (\<exists>a n. desc_fmt fd = Some a \<and> mem_format_desc M a = Some n
                 \<and> BitsPerPixel fd = anon1 n \<and> Flags fd = anon1 n
                 \<and> Subtype_fmt fd = bDescriptorSubtype_fmt n)"
  proof (cases "itf_si i")
    case None
    with r show ?thesis by (simp add: FormatDescriptors_def)
  next
    case (Some s')
    from FormatDescriptors_SomeD [OF r Some] obtain si' :: uvc_streaming_interface_t and bs where
      c: "chain (mem_format_desc M) next_fmt (format_descs si') bs"
      and fds: "fds' = map (\<lambda>a. new_FormatDescriptor a (the (mem_format_desc M a))) bs"
      by blast
    show ?thesis
    proof
      fix fd assume "fd \<in> set fds'"
      with fds obtain a where a: "a \<in> set bs"
        and fd: "fd = new_FormatDescriptor a (the (mem_format_desc M a))" by auto
      from chain_allocated [OF c a] obtain n where n: "mem_format_desc M a = Some n" ..
      with fd show "BitsPerPixel fd = Flags fd
           \<and> (\<exists>a n. desc_fmt fd = Some a \<and> mem_format_desc M a = Some n
                 \<and> BitsPerPixel fd = anon1 n \<and> Flags fd = anon1 n
                 \<and> Subtype_fmt fd = bDescriptorSubtype_fmt n)"
        by (simp add: new_FormatDescriptor_def)
    qed
  qed
qed

theorem FormatDescriptors_packed_byte_witness:
  "itf_si (new_StreamInterface 20 ex_stream_if20) = Some 20
   \<and> mem_stream_if ex_mem 20 = Some ex_stream_if20
   \<and> chain (mem_format_desc ex_mem) next_fmt (format_descs ex_stream_if20) [30, 31]
   \<and> FormatDescriptors ex_mem (new_StreamInterface 20 ex_stream_if20) =
       Some ([new_FormatDescriptor 30 ex_format30, new_FormatDescriptor 31 ex_format31],
             [Read (StreamIf 20), Read (FormatDesc 30), Read (FormatDesc 31)])
   \<and> map desc_fmt [new_FormatDescriptor 30 ex_format30, new_FormatDescriptor 31 ex_format31]
       = [Some 30, Some 31]
   \<and> BitsPerPixel (new_FormatDescriptor 30 ex_format30) = 16
   \<and> Flags (new_FormatDescriptor 30 ex_format30) = 16
   \<and> anon1 ex_format30 = 16
   \<and> BitsPerPixel (new_FormatDescriptor 31 ex_format31) = 1
   \<and> Flags (new_FormatDescriptor 31 ex_format31) = 1
   \<and> anon1 ex_format31 = 1"
  using FormatDescriptors_packed_byte
    [of "new_StreamInterface 20 ex_stream_if20" 20 ex_mem ex_stream_if20 "[30, 31]"
        "[new_FormatDescriptor 30 ex_format30, new_FormatDescriptor 31 ex_format31]"
        "[Read (StreamIf 20), Read (FormatDesc 30), Read (FormatDesc 31)]"]
    ex_FormatDescriptors ex_format_chain
  by (simp add: new_StreamInterface_def new_FormatDescriptor_def ex_mem_def
      ex_format30_def ex_format31_def)

end
